theory Spec2Isabelle
  imports Complex_Main
begin

section \<open>Data model\<close>

text \<open>
  The animator of \<^verbatim>\<open>src/util/GoToAnimator.js\<close> moves the navigator of a world window
  to a target position. JavaScript Numbers are modelled as real numbers (finite values,
  exact arithmetic); a value that may be \<^verbatim>\<open>null\<close> or \<^verbatim>\<open>undefined\<close> is an
  \<open>option\<close>. A quotient whose divisor is zero is JavaScript's infinity or NaN and is
  outside the model: the theorems about a quotient by the radius of the globe or by the
  viewport size assume that the divisor is not zero.

  A \<open>position\<close> is the \<^verbatim>\<open>Position\<close> of the source (latitude, longitude, altitude),
  a \<open>camera\<close> the \<^verbatim>\<open>Camera\<close> (a position with heading, tilt and roll), a
  \<open>lookAt\<close> the \<^verbatim>\<open>LookAt\<close> (the same with a range).
\<close>

record position =
  latitude :: real
  longitude :: real
  altitude :: real

record camera = position +
  heading :: real
  tilt :: real
  roll :: real

record lookAt = camera +
  lookAtRange :: real

text \<open>\<^verbatim>\<open>new Position(latitude, longitude, altitude)\<close>\<close>

definition Position :: "real \<Rightarrow> real \<Rightarrow> real \<Rightarrow> position" where
  "Position lat lon alt = \<lparr>latitude = lat, longitude = lon, altitude = alt\<rparr>"

text \<open>
  The argument of \<^verbatim>\<open>goTo\<close> is a \<^verbatim>\<open>Location\<close> or a \<^verbatim>\<open>Position\<close>: its altitude
  may be missing.
\<close>

record destination =
  destLatitude :: real
  destLongitude :: real
  destAltitude :: "real option"

text \<open>
  The collaborators the animator calls and whose code is outside the file: the static
  functions of \<^verbatim>\<open>Location\<close> and \<^verbatim>\<open>Vec3\<close>, the globe, the navigator's conversions
  and the canvas. They are parameters of the model, carried by the world window. The
  functions of the navigator that depend on its present state take the navigator's camera.
\<close>

type_synonym vec3 = "real \<times> real \<times> real"

record worldWindow =
  greatCircleDistance :: "position \<Rightarrow> position \<Rightarrow> real"
  greatCircleAzimuth :: "position \<Rightarrow> position \<Rightarrow> real"
  greatCircleLocation :: "position \<Rightarrow> real \<Rightarrow> real \<Rightarrow> real \<times> real"
  computePointFromLocation :: "real \<Rightarrow> real \<Rightarrow> vec3"
  distanceTo :: "vec3 \<Rightarrow> vec3 \<Rightarrow> real"
  equatorialRadius :: real
  pixelSizeAtDistance :: "camera \<Rightarrow> real \<Rightarrow> real"
  clientWidth :: real
  getAsLookAt :: "camera \<Rightarrow> lookAt"
  lookAtToCamera :: "lookAt \<Rightarrow> camera"

text \<open>A completion callback is an opaque function of the caller, named by a number.\<close>

type_synonym callback = nat

text \<open>The fields of a \<^verbatim>\<open>GoToAnimator\<close> object.\<close>

record animator =
  wwd :: worldWindow
  animationFrequency :: real
  travelTime :: real
  cancelled :: bool
  completionCallback :: "callback option"
  targetPosition :: position
  startPosition :: position
  startTime :: real
  maxAltitude :: real
  maxAltitudeReachedTime :: "real option"
  panVelocity :: real
  rangeVelocity :: real

text \<open>
  The state the functions of the animator read and write: the animator itself
  (\<^verbatim>\<open>this\<close>), the navigator's camera with the list of cameras handed to
  \<^verbatim>\<open>setAsCamera\<close>, the number of redraw requests, the clock behind \<^verbatim>\<open>Date.now()\<close>
  (the n-th call returns \<open>clock n\<close>), the pending timers of \<^verbatim>\<open>setTimeout\<close> (each the
  \<^verbatim>\<open>timerCallback\<close> closure of one \<^verbatim>\<open>goTo\<close> call, numbered in the order of the calls,
  with its delay), and the completion callbacks invoked so far, each with the closure
  that invoked it.
\<close>

record state =
  self :: animator
  navigator :: camera
  setAsCameraCalls :: "camera list"
  redraws :: nat
  clock :: "nat \<Rightarrow> real"
  clockReads :: nat
  timers :: "(nat \<times> real) list"
  closures :: nat
  completions :: "(nat \<times> callback) list"

section \<open>The host: clock, navigator, timers\<close>

text \<open>\<^verbatim>\<open>Date.now()\<close>: the next reading of the clock.\<close>

definition Date_now :: "state \<Rightarrow> real \<times> state" where
  "Date_now s = (clock s (clockReads s), s\<lparr>clockReads := Suc (clockReads s)\<rparr>)"

text \<open>
  Modelled from the spec: the viewer's camera access (\<^verbatim>\<open>navigator.getAsCamera\<close> and
  \<^verbatim>\<open>navigator.setAsCamera\<close> are not in the file). The viewer holds one camera;
  reading returns it, writing replaces it.
\<close>

definition getAsCamera :: "state \<Rightarrow> camera" where
  "getAsCamera s = navigator s"

definition setAsCamera :: "camera \<Rightarrow> state \<Rightarrow> state" where
  "setAsCamera c s = s\<lparr>navigator := c, setAsCameraCalls := setAsCameraCalls s @ [c]\<rparr>"

definition redraw :: "state \<Rightarrow> state" where
  "redraw s = s\<lparr>redraws := Suc (redraws s)\<rparr>"

text \<open>\<^verbatim>\<open>setTimeout(timerCallback, delay)\<close> for the closure \<open>i\<close>.\<close>

definition setTimeout :: "nat \<Rightarrow> real \<Rightarrow> state \<Rightarrow> state" where
  "setTimeout i delay s = s\<lparr>timers := timers s @ [(i, delay)]\<rparr>"

text \<open>Calling the completion callback \<open>cb\<close> from the closure \<open>i\<close>.\<close>

definition invoke :: "nat \<Rightarrow> callback \<Rightarrow> state \<Rightarrow> state" where
  "invoke i cb s = s\<lparr>completions := completions s @ [(i, cb)]\<rparr>"

text \<open>
  The truth value JavaScript gives \<^verbatim>\<open>maxAltitudeReachedTime\<close> in a condition:
  \<^verbatim>\<open>null\<close> and \<^verbatim>\<open>0\<close> are false.
\<close>

definition truthy :: "real option \<Rightarrow> bool" where
  "truthy t = (case t of None \<Rightarrow> False | Some v \<Rightarrow> v \<noteq> 0)"

section \<open>The two sub-motions and the tick\<close>

text \<open>\<^verbatim>\<open>GoToAnimator.prototype.updateRange\<close> (lines 231 to 267).\<close>

definition updateRange :: "position \<Rightarrow> state \<Rightarrow> bool \<times> state" where
  "updateRange currentPosition s =
    (let camera = getAsCamera s in
     if \<not> truthy (maxAltitudeReachedTime (self s)) then
       (let (now, s1) = Date_now s;
            elapsedTime = now - startTime (self s1);
            nextRange = min (altitude (startPosition (self s1)) + rangeVelocity (self s1) * elapsedTime)
                            (maxAltitude (self s1));
            s2 = (if \<bar>altitude camera - nextRange\<bar> < 1
                  then (let (now2, s1') = Date_now s1
                        in s1'\<lparr>self := (self s1')\<lparr>maxAltitudeReachedTime := Some now2\<rparr>\<rparr>)
                  else s1);
            s3 = setAsCamera (camera\<lparr>altitude := nextRange\<rparr>) s2
        in (True, s3))
     else
       (let (now, s1) = Date_now s;
            elapsedTime = now - the (maxAltitudeReachedTime (self s1));
            nextRange =
              (if maxAltitude (self s1) > altitude (targetPosition (self s1))
               then max (maxAltitude (self s1) - rangeVelocity (self s1) * elapsedTime)
                        (altitude (targetPosition (self s1)))
               else min (maxAltitude (self s1) + rangeVelocity (self s1) * elapsedTime)
                        (altitude (targetPosition (self s1))));
            camera' = camera\<lparr>altitude := nextRange\<rparr>;
            s2 = setAsCamera camera' s1
        in (\<bar>altitude camera' - altitude (targetPosition (self s2))\<bar> > 1, s2)))"

text \<open>\<^verbatim>\<open>GoToAnimator.prototype.updateLocation\<close> (lines 270 to 300).\<close>

definition updateLocation :: "position \<Rightarrow> state \<Rightarrow> bool \<times> state" where
  "updateLocation currentPosition s =
    (let camera = getAsCamera s;
         (now, s1) = Date_now s;
         w = wwd (self s1);
         elapsedTime = now - startTime (self s1);
         distanceTravelled = greatCircleDistance w (startPosition (self s1)) currentPosition;
         distanceRemaining = greatCircleDistance w currentPosition (targetPosition (self s1));
         azimuthToTarget = greatCircleAzimuth w currentPosition (targetPosition (self s1));
         distanceForNow = panVelocity (self s1) * elapsedTime;
         nextDistance = min (distanceForNow - distanceTravelled) distanceRemaining;
         nextLocation = greatCircleLocation w currentPosition azimuthToTarget nextDistance;
         camera' = camera\<lparr>latitude := fst nextLocation, longitude := snd nextLocation\<rparr>;
         s2 = setAsCamera camera' s1;
         locationReached = (nextDistance < 1 / equatorialRadius w \<or> elapsedTime > 4000)
     in (\<not> locationReached, s2))"

text \<open>\<^verbatim>\<open>GoToAnimator.prototype.update\<close> (lines 210 to 228).\<close>

definition update :: "state \<Rightarrow> bool \<times> state" where
  "update s =
    (let camera = getAsCamera s;
         currentPosition = Position (latitude camera) (longitude camera) (altitude camera);
         (continueAnimation, s1) = updateRange currentPosition s;
         (continueLocation, s2) = updateLocation currentPosition s1;
         s3 = redraw s2
     in (continueLocation \<or> continueAnimation, s3))"

section \<open>Errors\<close>

text \<open>
  Both argument checks run \<^verbatim>\<open>throw new ArgumentError(Logger.logMessage(...))\<close>. The
  expression first resolves the identifier \<^verbatim>\<open>ArgumentError\<close>. The module binds only the
  names of its \<^verbatim>\<open>define\<close> callback (lines 10 to 23) and its own constructor, and
  \<^verbatim>\<open>ArgumentError\<close> is not among them, so the identifier is looked up among the
  names of the host's global object. Where it is bound nowhere, strict-mode JavaScript
  throws a \<^verbatim>\<open>ReferenceError\<close> before the constructor's argument is evaluated.
  An \<^verbatim>\<open>ArgumentError\<close> carries the class, function and message key given to the logger.
\<close>

datatype error =
  ArgumentError string string string
  | ReferenceError string

definition moduleScope :: "string list" where
  "moduleScope = [''Camera'', ''Location'', ''Logger'', ''LookAt'', ''Position'', ''Vec3'',
                  ''GoToAnimator'']"

definition throwArgumentError :: "string list \<Rightarrow> string \<Rightarrow> string \<Rightarrow> string \<Rightarrow> error" where
  "throwArgumentError globalNames className functionName message =
    (if ''ArgumentError'' \<in> set (moduleScope @ globalNames)
     then ArgumentError className functionName message
     else ReferenceError ''ArgumentError'')"

section \<open>Construction, cancellation and goTo\<close>

text \<open>
  The constructor (lines 34 to 71). The fields it does not assign are
  \<^verbatim>\<open>undefined\<close> until the first \<^verbatim>\<open>goTo\<close>: the two that are read as truth values
  are \<open>None\<close>, the others are left unspecified.
\<close>

definition GoToAnimator :: "string list \<Rightarrow> worldWindow option \<Rightarrow> error + animator" where
  "GoToAnimator globalNames worldWindow =
    (case worldWindow of
       None \<Rightarrow> Inl (throwArgumentError globalNames ''GoToAnimator'' ''constructor'' ''missingWorldWindow'')
     | Some w \<Rightarrow>
         Inr \<lparr>wwd = w, animationFrequency = 20, travelTime = 3000, cancelled = False,
              completionCallback = None, targetPosition = undefined, startPosition = undefined,
              startTime = undefined, maxAltitude = undefined, maxAltitudeReachedTime = None,
              panVelocity = undefined, rangeVelocity = undefined\<rparr>)"

text \<open>\<^verbatim>\<open>GoToAnimator.prototype.cancel\<close> (lines 74 to 76).\<close>

definition cancel :: "state \<Rightarrow> state" where
  "cancel s = s\<lparr>self := (self s)\<lparr>cancelled := True\<rparr>\<rparr>"

text \<open>\<^verbatim>\<open>GoToAnimator.prototype.getTargetPosition\<close> (lines 195 to 207).\<close>

definition getTargetPosition :: "destination \<Rightarrow> state \<Rightarrow> position" where
  "getTargetPosition position s =
    (let w = wwd (self s);
         lookAt0 = getAsLookAt w (navigator s);
         lookAt1 = (case destAltitude position of
                      Some alt \<Rightarrow> lookAt0\<lparr>altitude := alt\<rparr>
                    | None \<Rightarrow> lookAt0);
         lookAt2 = lookAt1\<lparr>latitude := destLatitude position, longitude := destLongitude position\<rparr>;
         resultCamera = lookAtToCamera w lookAt2
     in Position (latitude resultCamera) (longitude resultCamera) (altitude resultCamera))"

text \<open>
  The local values of \<^verbatim>\<open>goTo\<close> (lines 112 to 163), each a function of what the
  source computes it from.
\<close>

definition chordDistance :: "worldWindow \<Rightarrow> position \<Rightarrow> position \<Rightarrow> real" where
  "chordDistance w start target =
    (let pA = computePointFromLocation w (latitude start) (longitude start);
         pB = computePointFromLocation w (latitude target) (longitude target)
     in distanceTo w pA pB)"

definition viewportSizeOf :: "worldWindow \<Rightarrow> camera \<Rightarrow> position \<Rightarrow> real" where
  "viewportSizeOf w nav start =
    pixelSizeAtDistance w nav (altitude start) * clientWidth w / equatorialRadius w"

definition maxAltitudeOf :: "real \<Rightarrow> real \<Rightarrow> real \<Rightarrow> position \<Rightarrow> real" where
  "maxAltitudeOf panDistance viewportSize chord start =
    (if panDistance \<le> 2 * viewportSize then altitude start else chord)"

definition rangeDistanceOf :: "real \<Rightarrow> position \<Rightarrow> position \<Rightarrow> real" where
  "rangeDistanceOf maxAlt start target =
    (if maxAlt > altitude start
     then max 0 (maxAlt - altitude start) + \<bar>altitude target - maxAlt\<bar>
     else \<bar>altitude target - altitude start\<bar>)"

definition animationDistanceOf :: "worldWindow \<Rightarrow> real \<Rightarrow> real \<Rightarrow> real" where
  "animationDistanceOf w panDistance rangeDistance =
    max panDistance (rangeDistance / equatorialRadius w)"

definition animationDurationOf :: "real \<Rightarrow> real \<Rightarrow> real \<Rightarrow> real" where
  "animationDurationOf travel animationDistance viewportSize =
    max 1 (if animationDistance < 2 * viewportSize
           then min ((animationDistance / viewportSize) * travel) travel
           else travel)"

text \<open>
  \<^verbatim>\<open>GoToAnimator.prototype.goTo\<close> (lines 87 to 188). The result is the error thrown, if
  any, and the state the call leaves. \<open>globalNames\<close> are the names bound in the host's
  global object.
\<close>

definition goTo :: "string list \<Rightarrow> destination option \<Rightarrow> callback option \<Rightarrow> state \<Rightarrow> error option \<times> state" where
  "goTo globalNames position completionCallback' s =
    (case position of
       None \<Rightarrow> (Some (throwArgumentError globalNames ''GoToAnimator'' ''goTo'' ''missingPosition''), s)
     | Some p \<Rightarrow>
        (let camera = getAsCamera s;
             s1 = s\<lparr>self := (self s)\<lparr>completionCallback := completionCallback', cancelled := False\<rparr>\<rparr>;
             s2 = s1\<lparr>self := (self s1)\<lparr>targetPosition := getTargetPosition p s1\<rparr>\<rparr>;
             s3 = s2\<lparr>self := (self s2)\<lparr>startPosition :=
                     Position (latitude camera) (longitude camera) (altitude camera)\<rparr>\<rparr>;
             (now, s4) = Date_now s3;
             s5 = s4\<lparr>self := (self s4)\<lparr>startTime := now\<rparr>\<rparr>;
             w = wwd (self s5);
             start = startPosition (self s5);
             target = targetPosition (self s5);
             panDistance = greatCircleDistance w start target;
             viewportSize = viewportSizeOf w (navigator s5) start;
             maxAlt = maxAltitudeOf panDistance viewportSize (chordDistance w start target) start;
             s6 = s5\<lparr>self := (self s5)\<lparr>maxAltitude := maxAlt\<rparr>\<rparr>;
             s7 = (if maxAlt \<le> altitude camera
                   then (let (now2, s6') = Date_now s6
                         in s6'\<lparr>self := (self s6')\<lparr>maxAltitudeReachedTime := Some now2\<rparr>\<rparr>)
                   else s6\<lparr>self := (self s6)\<lparr>maxAltitudeReachedTime := None\<rparr>\<rparr>);
             rangeDistance = rangeDistanceOf maxAlt start target;
             animationDistance = animationDistanceOf w panDistance rangeDistance
         in if animationDistance = 0 then (None, s7)
            else
              (let animationDuration = animationDurationOf (travelTime (self s7)) animationDistance viewportSize;
                   s8 = s7\<lparr>self := (self s7)\<lparr>panVelocity := panDistance / animationDuration,
                                                rangeVelocity := rangeDistance / animationDuration\<rparr>\<rparr>;
                   i = closures s8;
                   s9 = setTimeout i (animationFrequency (self s8)) (s8\<lparr>closures := Suc i\<rparr>)
               in (None, s9))))"

text \<open>
  The closure \<^verbatim>\<open>timerCallback\<close> (lines 173 to 186) of the \<open>i\<close>-th \<^verbatim>\<open>goTo\<close> call.
  All closures share the animator, so they differ only in which one is rescheduled.
\<close>

definition timerCallback :: "nat \<Rightarrow> state \<Rightarrow> state" where
  "timerCallback i s =
    (if cancelled (self s) then
       (case completionCallback (self s) of Some cb \<Rightarrow> invoke i cb s | None \<Rightarrow> s)
     else
       (let (continue, s1) = update s in
        if continue then setTimeout i (animationFrequency (self s1)) s1
        else (case completionCallback (self s1) of Some cb \<Rightarrow> invoke i cb s1 | None \<Rightarrow> s1)))"

section \<open>Runs\<close>

text \<open>
  The host fires a pending timer: the timer leaves the pending list and its closure
  runs. Firing a closure that has no pending timer does nothing.
\<close>

definition fire :: "nat \<Rightarrow> state \<Rightarrow> state" where
  "fire i s =
    (case find (\<lambda>t. fst t = i) (timers s) of
       None \<Rightarrow> s
     | Some t \<Rightarrow> timerCallback i (s\<lparr>timers := remove1 t (timers s)\<rparr>))"

text \<open>
  What can happen to an animator between two moments: a call of \<^verbatim>\<open>goTo\<close>, a call of
  \<^verbatim>\<open>cancel\<close>, a pending timer firing, and the user (or anything else) moving the
  navigator. A completion callback runs last in its tick, so what it does is a sequence
  of such events after the tick.
\<close>

datatype event =
  GoTo "destination option" "callback option"
  | Cancel
  | Fire nat
  | Navigate camera

fun step :: "string list \<Rightarrow> event \<Rightarrow> state \<Rightarrow> state" where
  "step g (GoTo position cb) s = snd (goTo g position cb s)"
| "step g Cancel s = cancel s"
| "step g (Fire i) s = fire i s"
| "step g (Navigate c) s = s\<lparr>navigator := c\<rparr>"

fun run :: "string list \<Rightarrow> event list \<Rightarrow> state \<Rightarrow> state" where
  "run g [] s = s"
| "run g (e # es) s = run g es (step g e s)"


section \<open>The values the specification names\<close>

text \<open>
  The altitude profile in the words of the specification (section 4.4): while rising,
  the altitude of a tick is \<open>min(start.altitude + rangeVelocity * elapsed, maxAltitude)\<close>
  with the time elapsed since the start of the run; while settling, it moves from
  \<open>maxAltitude\<close> towards \<open>target.altitude\<close> with the time elapsed since the peak was
  reached, and stops there.
\<close>

definition risingAltitude :: "animator \<Rightarrow> real \<Rightarrow> real" where
  "risingAltitude a now =
    min (altitude (startPosition a) + rangeVelocity a * (now - startTime a)) (maxAltitude a)"

definition settlingAltitude :: "animator \<Rightarrow> real \<Rightarrow> real \<Rightarrow> real" where
  "settlingAltitude a reached now =
    (if maxAltitude a > altitude (targetPosition a)
     then max (maxAltitude a - rangeVelocity a * (now - reached)) (altitude (targetPosition a))
     else min (maxAltitude a + rangeVelocity a * (now - reached)) (altitude (targetPosition a)))"

text \<open>
  The step of the pan in the words of the specification (section 4.5):
  \<open>min(panVelocity * elapsedSinceStart - distanceTravelled, distanceRemaining)\<close>, and the
  pan budget \<open>panVelocity * elapsedSinceStart\<close>.
\<close>

definition panBudget :: "animator \<Rightarrow> real \<Rightarrow> real" where
  "panBudget a now = panVelocity a * (now - startTime a)"

definition stepDistance :: "animator \<Rightarrow> position \<Rightarrow> real \<Rightarrow> real" where
  "stepDistance a cur now =
    min (panBudget a now - greatCircleDistance (wwd a) (startPosition a) cur)
        (greatCircleDistance (wwd a) cur (targetPosition a))"

text \<open>
  The values a call \<^verbatim>\<open>goTo(p, cb)\<close> computes, as functions of the state before the call:
  the captured start, the pan distance, the viewport size, the peak altitude, the range
  distance, the governing distance and the duration.
\<close>

definition startOf :: "state \<Rightarrow> position" where
  "startOf s = Position (latitude (navigator s)) (longitude (navigator s)) (altitude (navigator s))"

definition panDistanceOf :: "destination \<Rightarrow> state \<Rightarrow> real" where
  "panDistanceOf p s = greatCircleDistance (wwd (self s)) (startOf s) (getTargetPosition p s)"

definition viewportOf :: "state \<Rightarrow> real" where
  "viewportOf s = viewportSizeOf (wwd (self s)) (navigator s) (startOf s)"

definition chordOf :: "destination \<Rightarrow> state \<Rightarrow> real" where
  "chordOf p s = chordDistance (wwd (self s)) (startOf s) (getTargetPosition p s)"

definition peakOf :: "destination \<Rightarrow> state \<Rightarrow> real" where
  "peakOf p s = maxAltitudeOf (panDistanceOf p s) (viewportOf s) (chordOf p s) (startOf s)"

definition rangeOf :: "destination \<Rightarrow> state \<Rightarrow> real" where
  "rangeOf p s = rangeDistanceOf (peakOf p s) (startOf s) (getTargetPosition p s)"

definition distanceOf :: "destination \<Rightarrow> state \<Rightarrow> real" where
  "distanceOf p s = animationDistanceOf (wwd (self s)) (panDistanceOf p s) (rangeOf p s)"

definition durationOf :: "destination \<Rightarrow> state \<Rightarrow> real" where
  "durationOf p s = animationDurationOf (travelTime (self s)) (distanceOf p s) (viewportOf s)"

text \<open>What \<^verbatim>\<open>goTo\<close> has written when it reaches line 152, where it may return early.\<close>

definition goToWrites :: "destination \<Rightarrow> callback option \<Rightarrow> state \<Rightarrow> state" where
  "goToWrites p cb s =
    s\<lparr>self := (self s)\<lparr>completionCallback := cb, cancelled := False,
          targetPosition := getTargetPosition p s, startPosition := startOf s,
          startTime := clock s (clockReads s), maxAltitude := peakOf p s,
          maxAltitudeReachedTime :=
            (if peakOf p s \<le> altitude (navigator s)
             then Some (clock s (Suc (clockReads s))) else None)\<rparr>,
      clockReads := (if peakOf p s \<le> altitude (navigator s)
                     then Suc (Suc (clockReads s)) else Suc (clockReads s))\<rparr>"

text \<open>
  The closures that have a pending timer, and those that have invoked a completion
  callback. The bookkeeping of timers is sound in a state when no closure has two
  pending timers, no closure has invoked two completion callbacks, every closure named
  was created, and a closure that has invoked a completion callback has no pending timer.
\<close>

definition pendingClosures :: "state \<Rightarrow> nat list" where
  "pendingClosures s = map fst (timers s)"

definition completedClosures :: "state \<Rightarrow> nat list" where
  "completedClosures s = map fst (completions s)"

definition timersOk :: "state \<Rightarrow> bool" where
  "timersOk s \<longleftrightarrow>
    distinct (pendingClosures s) \<and>
    distinct (completedClosures s) \<and>
    set (pendingClosures s) \<subseteq> {..<closures s} \<and>
    set (completedClosures s) \<subseteq> {..<closures s} \<and>
    set (pendingClosures s) \<inter> set (completedClosures s) = {}"



section \<open>An example world\<close>

text \<open>
  A small world for concrete runs: the camera moves along the equator of a globe of
  radius 1000 m, longitudes are in radians, and the great-circle functions are those of
  the equator (the distance is the difference of the longitudes, the azimuth is 90
  eastwards and 270 westwards, the destination adds the distance along the azimuth).
  A pixel at distance \<open>d\<close> is \<open>d / 1000\<close> wide and the canvas is 100 pixels wide. The look-at
  point of a camera is the camera's own position.
\<close>

definition lineWorld :: worldWindow where
  "lineWorld =
    \<lparr>greatCircleDistance = (\<lambda>a b. \<bar>longitude b - longitude a\<bar>),
     greatCircleAzimuth = (\<lambda>a b. if longitude a \<le> longitude b then 90 else 270),
     greatCircleLocation =
       (\<lambda>a az d. (latitude a, if az = 90 then longitude a + d else longitude a - d)),
     computePointFromLocation = (\<lambda>lat lon. (1000 * lon, 0, 0)),
     distanceTo = (\<lambda>a b. \<bar>fst b - fst a\<bar>),
     equatorialRadius = 1000,
     pixelSizeAtDistance = (\<lambda>nav d. d / 1000),
     clientWidth = 100,
     getAsLookAt =
       (\<lambda>c. \<lparr>latitude = latitude c, longitude = longitude c, altitude = altitude c,
              heading = heading c, tilt = tilt c, roll = roll c, lookAtRange = 0\<rparr>),
     lookAtToCamera =
       (\<lambda>l. \<lparr>latitude = latitude l, longitude = longitude l, altitude = altitude l,
              heading = heading l, tilt = tilt l, roll = roll l\<rparr>)\<rparr>"

definition cameraAt :: "real \<Rightarrow> real \<Rightarrow> camera" where
  "cameraAt lon alt =
    \<lparr>latitude = 0, longitude = lon, altitude = alt, heading = 0, tilt = 0, roll = 0\<rparr>"

text \<open>
  An animator in the middle of a run from longitude 0 to longitude 2, rising from 1000 m
  to a peak of 2000 m and settling at 500 m, and the same animator after the peak was
  reached at time 2000.
\<close>

definition risingAnimator :: animator where
  "risingAnimator =
    \<lparr>wwd = lineWorld, animationFrequency = 20, travelTime = 3000, cancelled = False,
     completionCallback = Some 7, targetPosition = Position 0 2 500,
     startPosition = Position 0 0 1000, startTime = 1000, maxAltitude = 2000,
     maxAltitudeReachedTime = None, panVelocity = 1 / 1000, rangeVelocity = 1\<rparr>"

definition settlingAnimator :: animator where
  "settlingAnimator = risingAnimator\<lparr>maxAltitudeReachedTime := Some 2000\<rparr>"

text \<open>
  A state with the animator \<open>a\<close> and the camera \<open>c\<close>, in which the clock reads \<open>t\<close>, then
  \<open>t + 1\<close>, and so on, and the closure 0 of the run has its timer pending.
\<close>

definition runningState :: "animator \<Rightarrow> camera \<Rightarrow> real \<Rightarrow> state" where
  "runningState a c t =
    \<lparr>self = a, navigator = c, setAsCameraCalls = [], redraws = 0,
     clock = (\<lambda>n. t + real n), clockReads = 0, timers = [(0, 20)], closures = 1,
     completions = []\<rparr>"

text \<open>
  A state at rest: an animator with travel time \<open>tt\<close> and no run, the camera \<open>c\<close>, no
  timer, no closure, and a clock that reads 1000, 1001, and so on.
\<close>

definition idleAnimator :: "real \<Rightarrow> animator" where
  "idleAnimator tt =
    \<lparr>wwd = lineWorld, animationFrequency = 20, travelTime = tt, cancelled = False,
     completionCallback = None, targetPosition = Position 0 0 0,
     startPosition = Position 0 0 0, startTime = 0, maxAltitude = 0,
     maxAltitudeReachedTime = None, panVelocity = 0, rangeVelocity = 0\<rparr>"

definition idleState :: "camera \<Rightarrow> state" where
  "idleState c =
    \<lparr>self = idleAnimator 3000, navigator = c, setAsCameraCalls = [], redraws = 0,
     clock = (\<lambda>n. 1000 + real n), clockReads = 0, timers = [], closures = 0,
     completions = []\<rparr>"

definition destinationAt :: "real \<Rightarrow> real option \<Rightarrow> destination" where
  "destinationAt lon alt = \<lparr>destLatitude = 0, destLongitude = lon, destAltitude = alt\<rparr>"

section \<open>What one call of a sub-motion does\<close>

lemmas example_defs =
  runningState_def risingAnimator_def settlingAnimator_def cameraAt_def lineWorld_def
  idleState_def idleAnimator_def destinationAt_def

lemma Position_sel [simp]:
  "latitude (Position a b c) = a" "longitude (Position a b c) = b" "altitude (Position a b c) = c"
  by (simp_all add: Position_def)

lemma updateRange_rising:
  assumes "\<not> truthy (maxAltitudeReachedTime (self s))"
  shows "updateRange cur s =
     (True,
      (let next = risingAltitude (self s) (clock s (clockReads s));
           near = \<bar>altitude (navigator s) - next\<bar> < 1 in
       s\<lparr>self := (if near then (self s)\<lparr>maxAltitudeReachedTime := Some (clock s (Suc (clockReads s)))\<rparr>
                  else self s),
         navigator := (navigator s)\<lparr>altitude := next\<rparr>,
         setAsCameraCalls := setAsCameraCalls s @ [(navigator s)\<lparr>altitude := next\<rparr>],
         clockReads := (if near then Suc (Suc (clockReads s)) else Suc (clockReads s))\<rparr>))"
  using assms
  by (simp add: updateRange_def Let_def Date_now_def getAsCamera_def setAsCamera_def
      risingAltitude_def)

lemma updateRange_settling:
  assumes "truthy (maxAltitudeReachedTime (self s))"
  shows "updateRange cur s =
     (let next = settlingAltitude (self s) (the (maxAltitudeReachedTime (self s)))
                   (clock s (clockReads s)) in
      (\<bar>next - altitude (targetPosition (self s))\<bar> > 1,
       s\<lparr>navigator := (navigator s)\<lparr>altitude := next\<rparr>,
         setAsCameraCalls := setAsCameraCalls s @ [(navigator s)\<lparr>altitude := next\<rparr>],
         clockReads := Suc (clockReads s)\<rparr>))"
  using assms
  by (simp add: updateRange_def Let_def Date_now_def getAsCamera_def setAsCamera_def
      settlingAltitude_def)

lemma updateLocation_eq:
  "updateLocation cur s =
     (let now = clock s (clockReads s);
          w = wwd (self s);
          d = stepDistance (self s) cur now;
          loc = greatCircleLocation w cur (greatCircleAzimuth w cur (targetPosition (self s))) d;
          cam = (navigator s)\<lparr>latitude := fst loc, longitude := snd loc\<rparr>
      in (\<not> (d < 1 / equatorialRadius w \<or> now - startTime (self s) > 4000),
          s\<lparr>navigator := cam, setAsCameraCalls := setAsCameraCalls s @ [cam],
            clockReads := Suc (clockReads s)\<rparr>))"
  by (simp add: updateLocation_def Let_def Date_now_def getAsCamera_def setAsCamera_def
      stepDistance_def panBudget_def)

lemma settlingAltitude_between:
  "(maxAltitude a > altitude (targetPosition a) \<longrightarrow>
      altitude (targetPosition a) \<le> settlingAltitude a r t) \<and>
   (maxAltitude a \<le> altitude (targetPosition a) \<longrightarrow>
      settlingAltitude a r t \<le> altitude (targetPosition a))"
  by (simp add: settlingAltitude_def)

text \<open>
  A tick passes both sub-motions the position of the camera it read first, runs the
  altitude sub-motion, then the pan sub-motion, and asks for a redraw.
\<close>

lemma update_eq:
  "update s =
     (let cur = startOf s;
          r1 = updateRange cur s;
          r2 = updateLocation cur (snd r1)
      in (fst r2 \<or> fst r1, redraw (snd r2)))"
  by (simp add: update_def startOf_def getAsCamera_def split_def Let_def)

section \<open>The altitude sub-motion\<close>

text \<open>
  Claim C1. In a tick, \<^verbatim>\<open>updateRange\<close> follows the two-phase profile. While
  \<^verbatim>\<open>maxAltitudeReachedTime\<close> is unset (null or 0, which the test of line 241 takes for
  false) it hands the navigator the camera it read with the altitude
  \<open>min(start.altitude + rangeVelocity * elapsedSinceStart, maxAltitude)\<close>, sets
  \<^verbatim>\<open>maxAltitudeReachedTime\<close> to the next reading of the clock exactly when the altitude it
  read is less than 1 m from that value, and reports true. Once it is set, it writes
  \<open>max(maxAltitude - rangeVelocity * elapsedSinceReached, target.altitude)\<close> when
  \<open>maxAltitude > target.altitude\<close> and
  \<open>min(maxAltitude + rangeVelocity * elapsedSinceReached, target.altitude)\<close> otherwise,
  reports true exactly when the written altitude is more than 1 m from
  \<open>target.altitude\<close>, and the written altitude is never on the far side of
  \<open>target.altitude\<close>.
\<close>

theorem updateRange_two_phase:
  "(\<not> truthy (maxAltitudeReachedTime (self s)) \<longrightarrow>
      fst (updateRange cur s) \<and>
      setAsCameraCalls (snd (updateRange cur s)) =
        setAsCameraCalls s @
          [(getAsCamera s)\<lparr>altitude := risingAltitude (self s) (clock s (clockReads s))\<rparr>] \<and>
      altitude (navigator (snd (updateRange cur s))) =
        risingAltitude (self s) (clock s (clockReads s)) \<and>
      maxAltitudeReachedTime (self (snd (updateRange cur s))) =
        (if \<bar>altitude (getAsCamera s) - risingAltitude (self s) (clock s (clockReads s))\<bar> < 1
         then Some (clock s (Suc (clockReads s)))
         else maxAltitudeReachedTime (self s))) \<and>
   (truthy (maxAltitudeReachedTime (self s)) \<longrightarrow>
      (\<exists>reached. maxAltitudeReachedTime (self s) = Some reached \<and>
         setAsCameraCalls (snd (updateRange cur s)) =
           setAsCameraCalls s @
             [(getAsCamera s)\<lparr>altitude := settlingAltitude (self s) reached (clock s (clockReads s))\<rparr>] \<and>
         altitude (navigator (snd (updateRange cur s))) =
           settlingAltitude (self s) reached (clock s (clockReads s)) \<and>
         fst (updateRange cur s) =
           (\<bar>settlingAltitude (self s) reached (clock s (clockReads s))
              - altitude (targetPosition (self s))\<bar> > 1) \<and>
         (maxAltitude (self s) > altitude (targetPosition (self s)) \<longrightarrow>
            altitude (targetPosition (self s))
              \<le> altitude (navigator (snd (updateRange cur s)))) \<and>
         (maxAltitude (self s) \<le> altitude (targetPosition (self s)) \<longrightarrow>
            altitude (navigator (snd (updateRange cur s)))
              \<le> altitude (targetPosition (self s))) \<and>
         maxAltitudeReachedTime (self (snd (updateRange cur s))) = Some reached))"
proof (cases "truthy (maxAltitudeReachedTime (self s))")
  case False
  then show ?thesis
    by (simp add: updateRange_rising Let_def getAsCamera_def)
next
  case True
  then obtain reached where r: "maxAltitudeReachedTime (self s) = Some reached"
    by (auto simp: truthy_def split: option.splits)
  from settlingAltitude_between [of "self s" reached "clock s (clockReads s)"]
  show ?thesis using True r
    by (simp add: updateRange_settling Let_def getAsCamera_def)
qed

theorem updateRange_two_phase_witness:
  "\<not> truthy (maxAltitudeReachedTime (self (runningState risingAnimator (cameraAt (1/10) (2199/2)) 1100))) \<and>
   fst (updateRange (Position 0 (1/10) (2199/2)) (runningState risingAnimator (cameraAt (1/10) (2199/2)) 1100)) \<and>
   altitude (navigator (snd (updateRange (Position 0 (1/10) (2199/2))
       (runningState risingAnimator (cameraAt (1/10) (2199/2)) 1100)))) = 1100 \<and>
   maxAltitudeReachedTime (self (snd (updateRange (Position 0 (1/10) (2199/2))
       (runningState risingAnimator (cameraAt (1/10) (2199/2)) 1100)))) = Some 1101 \<and>
   truthy (maxAltitudeReachedTime (self (runningState settlingAnimator (cameraAt 1 1950) 2100))) \<and>
   fst (updateRange (Position 0 1 1950) (runningState settlingAnimator (cameraAt 1 1950) 2100)) \<and>
   altitude (navigator (snd (updateRange (Position 0 1 1950)
       (runningState settlingAnimator (cameraAt 1 1950) 2100)))) = 1900 \<and>
   altitude (targetPosition (self (runningState settlingAnimator (cameraAt 1 1950) 2100))) = 500"
  using updateRange_two_phase [of "runningState risingAnimator (cameraAt (1/10) (2199/2)) 1100"
          "Position 0 (1/10) (2199/2)"]
        updateRange_two_phase [of "runningState settlingAnimator (cameraAt 1 1950) 2100"
          "Position 0 1 1950"]
  by (simp add: example_defs truthy_def risingAltitude_def settlingAltitude_def getAsCamera_def)

section \<open>The pan sub-motion\<close>

text \<open>
  Claim C3. In a tick, \<^verbatim>\<open>updateLocation\<close> computes the step distance
  \<open>min(panVelocity * elapsedSinceStart - distanceTravelled, distanceRemaining)\<close>, hands the
  navigator the camera it read with the latitude and longitude of the great-circle
  destination at the azimuth to the target and at the step distance from the current
  position, and reports done exactly when the step distance is below
  \<open>1 / equatorialRadius\<close> or more than 4000 ms have passed since the start of the run.
  The current position is the argument of the call: \<^verbatim>\<open>update\<close> passes the position of the
  camera it read when the tick began. The quotient \<open>1 / equatorialRadius\<close> is
  JavaScript's when the radius is not zero.
\<close>

theorem updateLocation_step:
  assumes "equatorialRadius (wwd (self s)) \<noteq> 0"
  shows
   "stepDistance (self s) cur (clock s (clockReads s)) =
      min (panVelocity (self s) * (clock s (clockReads s) - startTime (self s))
             - greatCircleDistance (wwd (self s)) (startPosition (self s)) cur)
          (greatCircleDistance (wwd (self s)) cur (targetPosition (self s))) \<and>
    (latitude (navigator (snd (updateLocation cur s))),
     longitude (navigator (snd (updateLocation cur s)))) =
      greatCircleLocation (wwd (self s)) cur
        (greatCircleAzimuth (wwd (self s)) cur (targetPosition (self s)))
        (stepDistance (self s) cur (clock s (clockReads s))) \<and>
    setAsCameraCalls (snd (updateLocation cur s)) =
      setAsCameraCalls s @ [navigator (snd (updateLocation cur s))] \<and>
    (\<not> fst (updateLocation cur s)) =
      (stepDistance (self s) cur (clock s (clockReads s)) < 1 / equatorialRadius (wwd (self s)) \<or>
       clock s (clockReads s) - startTime (self s) > 4000)"
  by (simp add: updateLocation_eq Let_def stepDistance_def panBudget_def)

theorem updateLocation_step_witness:
  "equatorialRadius (wwd (self (runningState risingAnimator (cameraAt (1/20) 1050) 1100))) \<noteq> 0 \<and>
   stepDistance (self (runningState risingAnimator (cameraAt (1/20) 1050) 1100))
      (Position 0 (1/20) 1050) 1100 = 1/20 \<and>
   longitude (navigator (snd (updateLocation (Position 0 (1/20) 1050)
      (runningState risingAnimator (cameraAt (1/20) 1050) 1100)))) = 1/10 \<and>
   fst (updateLocation (Position 0 (1/20) 1050)
      (runningState risingAnimator (cameraAt (1/20) 1050) 1100))"
  using updateLocation_step [of "runningState risingAnimator (cameraAt (1/20) 1050) 1100"
          "Position 0 (1/20) 1050"]
  by (simp add: example_defs stepDistance_def panBudget_def)

text \<open>
  Claim C4, as amended. On a tick whose pan budget is exhausted (\<open>panVelocity *
  elapsedSinceStart\<close> is at most the distance travelled from the start to the current
  position) the step distance is at most 0, and \<^verbatim>\<open>updateLocation\<close> writes the
  great-circle destination at that step distance. The latitude and longitude stay what
  they were when the budget equals the distance travelled, the distance remaining is not
  negative (the step distance is then 0) and the destination at distance 0 is the live
  position. Nothing in \<^verbatim>\<open>updateLocation\<close> stops a negative step.
\<close>

theorem updateLocation_budget_exhausted:
  assumes "panBudget (self s) (clock s (clockReads s))
             \<le> greatCircleDistance (wwd (self s)) (startPosition (self s)) cur"
  shows
   "stepDistance (self s) cur (clock s (clockReads s)) \<le> 0 \<and>
    (latitude (navigator (snd (updateLocation cur s))),
     longitude (navigator (snd (updateLocation cur s)))) =
      greatCircleLocation (wwd (self s)) cur
        (greatCircleAzimuth (wwd (self s)) cur (targetPosition (self s)))
        (stepDistance (self s) cur (clock s (clockReads s))) \<and>
    (panBudget (self s) (clock s (clockReads s))
         = greatCircleDistance (wwd (self s)) (startPosition (self s)) cur \<and>
     0 \<le> greatCircleDistance (wwd (self s)) cur (targetPosition (self s)) \<and>
     greatCircleLocation (wwd (self s)) cur
        (greatCircleAzimuth (wwd (self s)) cur (targetPosition (self s))) 0
         = (latitude (navigator s), longitude (navigator s))
     \<longrightarrow> latitude (navigator (snd (updateLocation cur s))) = latitude (navigator s) \<and>
         longitude (navigator (snd (updateLocation cur s))) = longitude (navigator s))"
proof -
  let ?d = "stepDistance (self s) cur (clock s (clockReads s))"
  have le: "?d \<le> 0"
    using assms by (simp add: stepDistance_def min_def)
  have zero: "?d = 0"
    if "panBudget (self s) (clock s (clockReads s))
          = greatCircleDistance (wwd (self s)) (startPosition (self s)) cur"
       "0 \<le> greatCircleDistance (wwd (self s)) cur (targetPosition (self s))"
    using that by (simp add: stepDistance_def)
  have written: "(latitude (navigator (snd (updateLocation cur s))),
     longitude (navigator (snd (updateLocation cur s)))) =
      greatCircleLocation (wwd (self s)) cur
        (greatCircleAzimuth (wwd (self s)) cur (targetPosition (self s))) ?d"
    by (simp add: updateLocation_eq Let_def)
  show ?thesis
  proof (intro conjI impI)
    show "?d \<le> 0" by (rule le)
    show "(latitude (navigator (snd (updateLocation cur s))),
     longitude (navigator (snd (updateLocation cur s)))) =
      greatCircleLocation (wwd (self s)) cur
        (greatCircleAzimuth (wwd (self s)) cur (targetPosition (self s))) ?d"
      by (rule written)
  next
    assume a: "panBudget (self s) (clock s (clockReads s))
         = greatCircleDistance (wwd (self s)) (startPosition (self s)) cur \<and>
     0 \<le> greatCircleDistance (wwd (self s)) cur (targetPosition (self s)) \<and>
     greatCircleLocation (wwd (self s)) cur
        (greatCircleAzimuth (wwd (self s)) cur (targetPosition (self s))) 0
         = (latitude (navigator s), longitude (navigator s))"
    then have "?d = 0" using zero by blast
    with written a
    show "latitude (navigator (snd (updateLocation cur s))) = latitude (navigator s)"
      and "longitude (navigator (snd (updateLocation cur s))) = longitude (navigator s)"
      by simp_all
  qed
qed

theorem updateLocation_budget_exhausted_witness:
  "panBudget (self (runningState risingAnimator (cameraAt (1/10) 1100) 1100)) 1100
     = greatCircleDistance lineWorld (Position 0 0 1000) (Position 0 (1/10) 1100) \<and>
   stepDistance (self (runningState risingAnimator (cameraAt (1/10) 1100) 1100))
     (Position 0 (1/10) 1100) 1100 = 0 \<and>
   longitude (navigator (snd (updateLocation (Position 0 (1/10) 1100)
     (runningState risingAnimator (cameraAt (1/10) 1100) 1100)))) = 1/10"
  using updateLocation_budget_exhausted [of "runningState risingAnimator (cameraAt (1/10) 1100) 1100"
          "Position 0 (1/10) 1100"]
  by (simp add: example_defs stepDistance_def panBudget_def)

text \<open>
  The claim as stated fails where the budget is strictly below the distance travelled:
  the step is negative, and the destination at a negative distance lies behind the
  camera. In the example world, a camera that is at longitude 1.5 when the budget is 0.1
  is moved back to longitude 0.1 by \<^verbatim>\<open>updateLocation\<close>, and a whole tick from the same
  state (the clock two readings later, the budget 0.102) moves it back to longitude 0.102.
\<close>

theorem updateLocation_moves_back:
  "panBudget (self (runningState risingAnimator (cameraAt (3/2) 1100) 1100))
       (clock (runningState risingAnimator (cameraAt (3/2) 1100) 1100)
          (clockReads (runningState risingAnimator (cameraAt (3/2) 1100) 1100)))
     \<le> greatCircleDistance (wwd (self (runningState risingAnimator (cameraAt (3/2) 1100) 1100)))
          (startPosition (self (runningState risingAnimator (cameraAt (3/2) 1100) 1100)))
          (startOf (runningState risingAnimator (cameraAt (3/2) 1100) 1100)) \<and>
   longitude (navigator (runningState risingAnimator (cameraAt (3/2) 1100) 1100)) = 3/2 \<and>
   longitude (navigator (snd (updateLocation
       (startOf (runningState risingAnimator (cameraAt (3/2) 1100) 1100))
       (runningState risingAnimator (cameraAt (3/2) 1100) 1100)))) = 1/10 \<and>
   longitude (navigator (snd (update (runningState risingAnimator (cameraAt (3/2) 1100) 1100))))
     = 102/1000"
  by (simp add: update_eq updateRange_rising truthy_def risingAltitude_def redraw_def
      updateLocation_eq Let_def example_defs stepDistance_def panBudget_def startOf_def)

section \<open>What a sub-motion leaves alone\<close>

text \<open>
  Claim C10. Each sub-motion hands the navigator the camera it has just read with its own
  fields replaced: \<^verbatim>\<open>updateRange\<close> replaces the altitude, so the latitude and the
  longitude stay, and \<^verbatim>\<open>updateLocation\<close> replaces the latitude and the longitude, so
  the altitude stays.
\<close>

theorem sub_motions_frame:
  "navigator (snd (updateRange cur s)) =
     (getAsCamera s)\<lparr>altitude := altitude (navigator (snd (updateRange cur s)))\<rparr> \<and>
   setAsCameraCalls (snd (updateRange cur s)) =
     setAsCameraCalls s @ [navigator (snd (updateRange cur s))] \<and>
   latitude (navigator (snd (updateRange cur s))) = latitude (navigator s) \<and>
   longitude (navigator (snd (updateRange cur s))) = longitude (navigator s) \<and>
   navigator (snd (updateLocation cur s)) =
     (getAsCamera s)\<lparr>latitude := latitude (navigator (snd (updateLocation cur s))),
                     longitude := longitude (navigator (snd (updateLocation cur s)))\<rparr> \<and>
   setAsCameraCalls (snd (updateLocation cur s)) =
     setAsCameraCalls s @ [navigator (snd (updateLocation cur s))] \<and>
   altitude (navigator (snd (updateLocation cur s))) = altitude (navigator s)"
proof (cases "truthy (maxAltitudeReachedTime (self s))")
  case True
  then show ?thesis
    by (simp add: updateRange_settling updateLocation_eq Let_def getAsCamera_def)
next
  case False
  then show ?thesis
    by (simp add: updateRange_rising updateLocation_eq Let_def getAsCamera_def)
qed

section \<open>What a call of goTo does\<close>

lemma getTargetPosition_after_reset [simp]:
  "getTargetPosition p (s\<lparr>self := (self s)\<lparr>completionCallback := cb, cancelled := c\<rparr>\<rparr>)
     = getTargetPosition p s"
  by (simp add: getTargetPosition_def)

lemmas goTo_locals =
  startOf_def panDistanceOf_def viewportOf_def chordOf_def peakOf_def rangeOf_def
  distanceOf_def durationOf_def

lemmas goTo_values =
  goTo_locals getTargetPosition_def chordDistance_def viewportSizeOf_def maxAltitudeOf_def
  rangeDistanceOf_def animationDistanceOf_def animationDurationOf_def

lemma goTo_Some:
  "goTo g (Some p) cb s =
    (None,
     if distanceOf p s = 0 then goToWrites p cb s
     else (goToWrites p cb s)
            \<lparr>self := (self (goToWrites p cb s))
                 \<lparr>panVelocity := panDistanceOf p s / durationOf p s,
                  rangeVelocity := rangeOf p s / durationOf p s\<rparr>,
             timers := timers s @ [(closures s, animationFrequency (self s))],
             closures := Suc (closures s)\<rparr>)"
proof (cases "distanceOf p s = 0")
  case True
  then show ?thesis
    by (cases "peakOf p s \<le> altitude (navigator s)")
       (simp_all add: goTo_def Let_def Date_now_def getAsCamera_def setTimeout_def goToWrites_def
          goTo_locals split_def)
next
  case False
  then show ?thesis
    by (cases "peakOf p s \<le> altitude (navigator s)")
       (simp_all add: goTo_def Let_def Date_now_def getAsCamera_def setTimeout_def goToWrites_def
          goTo_locals split_def)
qed

lemma goTo_None:
  "goTo g None cb s = (Some (throwArgumentError g ''GoToAnimator'' ''goTo'' ''missingPosition''), s)"
  by (simp add: goTo_def)

lemma goTo_scheduled_iff:
  "timers (snd (goTo g (Some p) cb s)) \<noteq> timers s \<longleftrightarrow> distanceOf p s \<noteq> 0"
  by (simp add: goTo_Some goToWrites_def)

lemma goToWrites_sel [simp]:
  "maxAltitude (self (goToWrites p cb s)) = peakOf p s"
  "startPosition (self (goToWrites p cb s)) = startOf s"
  "targetPosition (self (goToWrites p cb s)) = getTargetPosition p s"
  "timers (goToWrites p cb s) = timers s"
  "completions (goToWrites p cb s) = completions s"
  "closures (goToWrites p cb s) = closures s"
  "navigator (goToWrites p cb s) = navigator s"
  "setAsCameraCalls (goToWrites p cb s) = setAsCameraCalls s"
  "completionCallback (self (goToWrites p cb s)) = cb"
  "cancelled (self (goToWrites p cb s)) = False"
  "travelTime (self (goToWrites p cb s)) = travelTime (self s)"
  "animationFrequency (self (goToWrites p cb s)) = animationFrequency (self s)"
  "wwd (self (goToWrites p cb s)) = wwd (self s)"
  by (simp_all add: goToWrites_def)

lemma animationDurationOf_ge_1: "1 \<le> animationDurationOf tt d v"
  by (simp add: animationDurationOf_def)

lemma rangeDistanceOf_nonneg: "0 \<le> rangeDistanceOf m a b"
  by (simp add: rangeDistanceOf_def)

lemma animationDurationOf_shrink:
  assumes "0 < v"
  shows "animationDurationOf tt d v = max 1 (min tt (d / v * tt))"
proof (cases "d < 2 * v")
  case True
  then show ?thesis by (simp add: animationDurationOf_def min.commute)
next
  case False
  with assms have two: "2 \<le> d / v" by (simp add: pos_le_divide_eq)
  show ?thesis
  proof (cases "0 \<le> tt")
    case True
    have "2 * tt \<le> d / v * tt" using two True by (rule mult_right_mono)
    with True have "tt \<le> d / v * tt" by linarith
    with False show ?thesis by (simp add: animationDurationOf_def min_def)
  next
    case neg: False
    then have "tt < 0" by simp
    then have "min tt (d / v * tt) < 1" by (simp add: min_def)
    with neg False show ?thesis by (simp add: animationDurationOf_def max_def)
  qed
qed

lemma animationDurationOf_long:
  assumes "\<not> pan \<le> 2 * v" "pan \<le> d"
  shows "animationDurationOf tt d v = max 1 tt"
  using assms by (simp add: animationDurationOf_def)

lemma distanceOf_ge_pan: "panDistanceOf p s \<le> distanceOf p s"
  by (simp add: distanceOf_def animationDistanceOf_def)

section \<open>Duration and velocities\<close>

text \<open>
  Claim C2. For a call of \<^verbatim>\<open>goTo\<close> that schedules a tick (the radius of the globe not
  being zero): if \<open>panDistance \<le> 2 * viewportSize\<close>, then \<^verbatim>\<open>maxAltitude\<close> is the start
  altitude; the duration is \<open>min(travelTime, distance / viewportSize * travelTime)\<close>
  floored at 1 (for a positive viewport size, \<open>distance\<close> being the larger of the pan
  distance and \<open>rangeDistance / equatorialRadius\<close>); on a move that is not local this is
  the travel time floored at 1; \<open>panVelocity = panDistance / duration\<close> and
  \<open>rangeVelocity = rangeDistance / duration\<close>, where \<open>rangeDistance\<close> is
  \<open>(maxAltitude - start.altitude) + |target.altitude - maxAltitude|\<close> when
  \<open>maxAltitude > start.altitude\<close> and \<open>|target.altitude - start.altitude|\<close> otherwise.
\<close>

theorem goTo_duration_and_velocities:
  assumes "timers (snd (goTo g (Some p) cb s)) \<noteq> timers s"
    and "equatorialRadius (wwd (self s)) \<noteq> 0"
  shows
   "(panDistanceOf p s \<le> 2 * viewportOf s \<longrightarrow>
       maxAltitude (self (snd (goTo g (Some p) cb s)))
         = altitude (startPosition (self (snd (goTo g (Some p) cb s))))) \<and>
    (0 < viewportOf s \<longrightarrow>
       durationOf p s =
         max 1 (min (travelTime (self s)) (distanceOf p s / viewportOf s * travelTime (self s)))) \<and>
    (\<not> panDistanceOf p s \<le> 2 * viewportOf s \<longrightarrow>
       durationOf p s = max 1 (travelTime (self s))) \<and>
    1 \<le> durationOf p s \<and>
    distanceOf p s = max (panDistanceOf p s) (rangeOf p s / equatorialRadius (wwd (self s))) \<and>
    panVelocity (self (snd (goTo g (Some p) cb s))) = panDistanceOf p s / durationOf p s \<and>
    rangeVelocity (self (snd (goTo g (Some p) cb s))) = rangeOf p s / durationOf p s \<and>
    rangeOf p s =
      (if maxAltitude (self (snd (goTo g (Some p) cb s)))
            > altitude (startPosition (self (snd (goTo g (Some p) cb s))))
       then (maxAltitude (self (snd (goTo g (Some p) cb s)))
               - altitude (startPosition (self (snd (goTo g (Some p) cb s)))))
            + \<bar>altitude (targetPosition (self (snd (goTo g (Some p) cb s))))
                 - maxAltitude (self (snd (goTo g (Some p) cb s)))\<bar>
       else \<bar>altitude (targetPosition (self (snd (goTo g (Some p) cb s))))
               - altitude (startPosition (self (snd (goTo g (Some p) cb s))))\<bar>)"
proof -
  let ?s' = "snd (goTo g (Some p) cb s)"
  from assms(1) have nz: "distanceOf p s \<noteq> 0"
    by (simp add: goTo_scheduled_iff)
  have peak: "maxAltitude (self ?s') = peakOf p s"
    and start: "startPosition (self ?s') = startOf s"
    and target: "targetPosition (self ?s') = getTargetPosition p s"
    and pan: "panVelocity (self ?s') = panDistanceOf p s / durationOf p s"
    and rng: "rangeVelocity (self ?s') = rangeOf p s / durationOf p s"
    using nz by (simp_all add: goTo_Some)
  have local: "peakOf p s = altitude (startOf s)" if "panDistanceOf p s \<le> 2 * viewportOf s"
    using that by (simp add: peakOf_def maxAltitudeOf_def)
  have shrink: "durationOf p s =
      max 1 (min (travelTime (self s)) (distanceOf p s / viewportOf s * travelTime (self s)))"
    if "0 < viewportOf s"
    using that by (simp add: durationOf_def animationDurationOf_shrink)
  have long: "durationOf p s = max 1 (travelTime (self s))"
    if "\<not> panDistanceOf p s \<le> 2 * viewportOf s"
    unfolding durationOf_def using that distanceOf_ge_pan [of p s]
    by (rule animationDurationOf_long)
  have ge1: "1 \<le> durationOf p s"
    by (simp add: durationOf_def animationDurationOf_ge_1)
  have dist: "distanceOf p s = max (panDistanceOf p s) (rangeOf p s / equatorialRadius (wwd (self s)))"
    by (simp add: distanceOf_def animationDistanceOf_def)
  have range: "rangeOf p s =
      (if peakOf p s > altitude (startOf s)
       then (peakOf p s - altitude (startOf s)) + \<bar>altitude (getTargetPosition p s) - peakOf p s\<bar>
       else \<bar>altitude (getTargetPosition p s) - altitude (startOf s)\<bar>)"
    by (simp add: rangeOf_def rangeDistanceOf_def)
  show ?thesis
    unfolding peak start target pan rng
    using local shrink long ge1 dist range by blast
qed

theorem goTo_duration_and_velocities_witness:
  "timers (snd (goTo [] (Some (destinationAt 2 (Some 500))) (Some 7) (idleState (cameraAt 0 1000))))
     \<noteq> timers (idleState (cameraAt 0 1000)) \<and>
   equatorialRadius (wwd (self (idleState (cameraAt 0 1000)))) \<noteq> 0 \<and>
   \<not> panDistanceOf (destinationAt 2 (Some 500)) (idleState (cameraAt 0 1000))
       \<le> 2 * viewportOf (idleState (cameraAt 0 1000)) \<and>
   durationOf (destinationAt 2 (Some 500)) (idleState (cameraAt 0 1000)) = 3000 \<and>
   panVelocity (self (snd (goTo [] (Some (destinationAt 2 (Some 500))) (Some 7)
       (idleState (cameraAt 0 1000))))) = 2 / 3000 \<and>
   rangeVelocity (self (snd (goTo [] (Some (destinationAt 2 (Some 500))) (Some 7)
       (idleState (cameraAt 0 1000))))) = 2500 / 3000 \<and>
   timers (snd (goTo [] (Some (destinationAt (1/20) None)) (Some 7) (idleState (cameraAt 0 1000))))
     \<noteq> timers (idleState (cameraAt 0 1000)) \<and>
   panDistanceOf (destinationAt (1/20) None) (idleState (cameraAt 0 1000))
       \<le> 2 * viewportOf (idleState (cameraAt 0 1000)) \<and>
   0 < viewportOf (idleState (cameraAt 0 1000)) \<and>
   durationOf (destinationAt (1/20) None) (idleState (cameraAt 0 1000)) = 1500 \<and>
   maxAltitude (self (snd (goTo [] (Some (destinationAt (1/20) None)) (Some 7)
       (idleState (cameraAt 0 1000))))) = 1000"
  using goTo_duration_and_velocities [of "[]" "destinationAt 2 (Some 500)" "Some 7"
          "idleState (cameraAt 0 1000)"]
        goTo_duration_and_velocities [of "[]" "destinationAt (1/20) None" "Some 7"
          "idleState (cameraAt 0 1000)"]
  by (simp add: goTo_Some goToWrites_def goTo_values example_defs)

text \<open>
  Claim C5, as amended. For a call of \<^verbatim>\<open>goTo\<close> that schedules a tick (the radius of the
  globe not being zero), \<^verbatim>\<open>rangeVelocity\<close> is not negative, \<^verbatim>\<open>panVelocity\<close> is not
  negative when the great-circle distance from start to target is not, and
  \<^verbatim>\<open>maxAltitude\<close> is the start altitude on a local move and the chord distance between
  the projected start and target points otherwise: it is at least the start altitude
  exactly when the move is local or the chord distance is at least the start altitude.
\<close>

theorem goTo_velocities_nonneg:
  assumes "timers (snd (goTo g (Some p) cb s)) \<noteq> timers s"
    and "equatorialRadius (wwd (self s)) \<noteq> 0"
  shows
   "(0 \<le> panDistanceOf p s \<longrightarrow> 0 \<le> panVelocity (self (snd (goTo g (Some p) cb s)))) \<and>
    0 \<le> rangeVelocity (self (snd (goTo g (Some p) cb s))) \<and>
    (panDistanceOf p s \<le> 2 * viewportOf s \<longrightarrow>
       maxAltitude (self (snd (goTo g (Some p) cb s)))
         = altitude (startPosition (self (snd (goTo g (Some p) cb s))))) \<and>
    (\<not> panDistanceOf p s \<le> 2 * viewportOf s \<longrightarrow>
       maxAltitude (self (snd (goTo g (Some p) cb s))) = chordOf p s) \<and>
    (altitude (startPosition (self (snd (goTo g (Some p) cb s))))
        \<le> maxAltitude (self (snd (goTo g (Some p) cb s)))
     \<longleftrightarrow> panDistanceOf p s \<le> 2 * viewportOf s \<or> altitude (startOf s) \<le> chordOf p s)"
proof -
  let ?s' = "snd (goTo g (Some p) cb s)"
  from assms(1) have nz: "distanceOf p s \<noteq> 0"
    by (simp add: goTo_scheduled_iff)
  have peak: "maxAltitude (self ?s') = peakOf p s"
    and start: "startPosition (self ?s') = startOf s"
    and pan: "panVelocity (self ?s') = panDistanceOf p s / durationOf p s"
    and rng: "rangeVelocity (self ?s') = rangeOf p s / durationOf p s"
    using nz by (simp_all add: goTo_Some)
  have pos: "0 < durationOf p s"
    using animationDurationOf_ge_1 [of "travelTime (self s)" "distanceOf p s" "viewportOf s"]
    by (simp add: durationOf_def)
  have r0: "0 \<le> rangeOf p s"
    by (simp add: rangeOf_def rangeDistanceOf_nonneg)
  have v1: "0 \<le> panDistanceOf p s / durationOf p s" if "0 \<le> panDistanceOf p s"
    using that pos by simp
  have v2: "0 \<le> rangeOf p s / durationOf p s"
    using r0 pos by simp
  have m: "peakOf p s = (if panDistanceOf p s \<le> 2 * viewportOf s then altitude (startOf s)
                         else chordOf p s)"
    by (simp add: peakOf_def maxAltitudeOf_def)
  show ?thesis
    unfolding peak start pan rng using v1 v2 m by auto
qed

theorem goTo_velocities_nonneg_witness:
  "timers (snd (goTo [] (Some (destinationAt 2 (Some 500))) (Some 7) (idleState (cameraAt 0 1000))))
     \<noteq> timers (idleState (cameraAt 0 1000)) \<and>
   equatorialRadius (wwd (self (idleState (cameraAt 0 1000)))) \<noteq> 0 \<and>
   0 \<le> panDistanceOf (destinationAt 2 (Some 500)) (idleState (cameraAt 0 1000)) \<and>
   \<not> panDistanceOf (destinationAt 2 (Some 500)) (idleState (cameraAt 0 1000))
       \<le> 2 * viewportOf (idleState (cameraAt 0 1000)) \<and>
   0 \<le> panVelocity (self (snd (goTo [] (Some (destinationAt 2 (Some 500))) (Some 7)
       (idleState (cameraAt 0 1000))))) \<and>
   maxAltitude (self (snd (goTo [] (Some (destinationAt 2 (Some 500))) (Some 7)
       (idleState (cameraAt 0 1000))))) = 2000 \<and>
   timers (snd (goTo [] (Some (destinationAt (1/20) None)) (Some 7) (idleState (cameraAt 0 1000))))
     \<noteq> timers (idleState (cameraAt 0 1000)) \<and>
   panDistanceOf (destinationAt (1/20) None) (idleState (cameraAt 0 1000))
       \<le> 2 * viewportOf (idleState (cameraAt 0 1000)) \<and>
   maxAltitude (self (snd (goTo [] (Some (destinationAt (1/20) None)) (Some 7)
       (idleState (cameraAt 0 1000))))) = 1000"
  using goTo_velocities_nonneg [of "[]" "destinationAt 2 (Some 500)" "Some 7"
          "idleState (cameraAt 0 1000)"]
        goTo_velocities_nonneg [of "[]" "destinationAt (1/20) None" "Some 7"
          "idleState (cameraAt 0 1000)"]
  by (simp add: goTo_Some goToWrites_def goTo_values example_defs)

text \<open>
  The claim as stated fails on a long move whose chord distance is below the start
  altitude. Line 138 provides for it: the peak counts as reached at once and the camera
  does not back out. In the example world, from 2000 m above longitude 0 to longitude 1
  the peak is 1000 m.
\<close>

theorem goTo_peak_below_start:
  "timers (snd (goTo [] (Some (destinationAt 1 None)) (Some 7) (idleState (cameraAt 0 2000))))
     \<noteq> timers (idleState (cameraAt 0 2000)) \<and>
   maxAltitude (self (snd (goTo [] (Some (destinationAt 1 None)) (Some 7)
       (idleState (cameraAt 0 2000))))) = 1000 \<and>
   altitude (startPosition (self (snd (goTo [] (Some (destinationAt 1 None)) (Some 7)
       (idleState (cameraAt 0 2000)))))) = 2000 \<and>
   \<not> altitude (startPosition (self (snd (goTo [] (Some (destinationAt 1 None)) (Some 7)
         (idleState (cameraAt 0 2000))))))
       \<le> maxAltitude (self (snd (goTo [] (Some (destinationAt 1 None)) (Some 7)
         (idleState (cameraAt 0 2000)))))"
  by (simp add: goTo_Some goToWrites_def goTo_values example_defs)

section \<open>The degenerate call\<close>




section \<open>Timers and completion callbacks\<close>

lemma updateRange_host:
  "timers (snd (updateRange cur s)) = timers s"
  "completions (snd (updateRange cur s)) = completions s"
  "closures (snd (updateRange cur s)) = closures s"
  "cancelled (self (snd (updateRange cur s))) = cancelled (self s)"
  "completionCallback (self (snd (updateRange cur s))) = completionCallback (self s)"
  "animationFrequency (self (snd (updateRange cur s))) = animationFrequency (self s)"
  by (cases "truthy (maxAltitudeReachedTime (self s))";
      simp add: updateRange_rising updateRange_settling Let_def)+

lemma updateLocation_host:
  "timers (snd (updateLocation cur s)) = timers s"
  "completions (snd (updateLocation cur s)) = completions s"
  "closures (snd (updateLocation cur s)) = closures s"
  "cancelled (self (snd (updateLocation cur s))) = cancelled (self s)"
  "completionCallback (self (snd (updateLocation cur s))) = completionCallback (self s)"
  "animationFrequency (self (snd (updateLocation cur s))) = animationFrequency (self s)"
  by (simp_all add: updateLocation_eq Let_def)

lemma update_host:
  "timers (snd (update s)) = timers s"
  "completions (snd (update s)) = completions s"
  "closures (snd (update s)) = closures s"
  "cancelled (self (snd (update s))) = cancelled (self s)"
  "completionCallback (self (snd (update s))) = completionCallback (self s)"
  "animationFrequency (self (snd (update s))) = animationFrequency (self s)"
  by (simp_all add: update_def Let_def split_def redraw_def updateRange_host updateLocation_host)

lemma timerCallback_cancelled:
  "cancelled (self s) \<Longrightarrow>
   timerCallback i s = (case completionCallback (self s) of Some cb \<Rightarrow> invoke i cb s | None \<Rightarrow> s)"
  by (simp add: timerCallback_def)

lemma timerCallback_running:
  "\<not> cancelled (self s) \<Longrightarrow>
   timerCallback i s =
     (if fst (update s) then setTimeout i (animationFrequency (self s)) (snd (update s))
      else (case completionCallback (self s) of
              Some cb \<Rightarrow> invoke i cb (snd (update s))
            | None \<Rightarrow> snd (update s)))"
  by (simp add: timerCallback_def split_def Let_def update_host)

lemma timerCallback_closures: "closures (timerCallback i s) = closures s"
  by (simp add: timerCallback_def Let_def split_def setTimeout_def invoke_def update_host
      split: option.splits)

lemma timerCallback_host:
  "(timers (timerCallback i s) = timers s @ [(i, animationFrequency (self s))] \<and>
      completions (timerCallback i s) = completions s) \<or>
   (timers (timerCallback i s) = timers s \<and>
      (completions (timerCallback i s) = completions s \<or>
       (\<exists>cb. completions (timerCallback i s) = completions s @ [(i, cb)])))"
  by (simp add: timerCallback_def Let_def split_def setTimeout_def invoke_def update_host
      split: option.splits)

lemma timerCallback_closures_lists:
  "(pendingClosures (timerCallback i s) = pendingClosures s @ [i] \<and>
      completedClosures (timerCallback i s) = completedClosures s) \<or>
   (pendingClosures (timerCallback i s) = pendingClosures s \<and>
      (completedClosures (timerCallback i s) = completedClosures s \<or>
       completedClosures (timerCallback i s) = completedClosures s @ [i]))"
  using timerCallback_host [of i s]
  by (auto simp: pendingClosures_def completedClosures_def)

lemma find_SomeD: "find P xs = Some t \<Longrightarrow> t \<in> set xs \<and> P t"
  by (induction xs) (auto split: if_splits)

lemma map_fst_remove1:
  "distinct (map fst xs) \<Longrightarrow> t \<in> set xs \<Longrightarrow> map fst (remove1 t xs) = remove1 (fst t) (map fst xs)"
proof (induction xs)
  case Nil
  then show ?case by simp
next
  case (Cons x xs)
  show ?case
  proof (cases "t = x")
    case True
    then show ?thesis by simp
  next
    case False
    with Cons.prems have "t \<in> set xs" by simp
    then have in_xs: "fst t \<in> fst ` set xs" by (rule imageI)
    from Cons.prems have "fst x \<notin> fst ` set xs" by simp
    with in_xs have "fst t \<noteq> fst x" by metis
    with False Cons \<open>t \<in> set xs\<close> show ?thesis by simp
  qed
qed




section \<open>Every event keeps the timers sound\<close>








lemma map_fst_remove1_subset: "set (map fst (remove1 t xs)) \<subseteq> set (map fst xs)"
  using set_remove1_subset [of t xs] by auto

lemma step_not_pending:
  assumes "i < closures s" and "i \<notin> set (pendingClosures s)"
  shows "i < closures (step g e s) \<and> i \<notin> set (pendingClosures (step g e s))"
proof (cases e)
  case (GoTo position cb)
  show ?thesis
  proof (cases position)
    case None
    with GoTo assms show ?thesis by (simp add: goTo_None)
  next
    case (Some p)
    with GoTo assms show ?thesis
      by (simp add: goTo_Some pendingClosures_def)
  qed
next
  case Cancel
  with assms show ?thesis by (simp add: cancel_def pendingClosures_def)
next
  case (Fire j)
  show ?thesis
  proof (cases "find (\<lambda>t. fst t = j) (timers s)")
    case None
    with Fire assms show ?thesis by (simp add: fire_def)
  next
    case (Some t)
    then have t: "t \<in> set (timers s)" and tj: "fst t = j"
      using find_SomeD [of "\<lambda>t. fst t = j" "timers s" t] by simp_all
    let ?s = "s\<lparr>timers := remove1 t (timers s)\<rparr>"
    from t tj have "j \<in> set (pendingClosures s)"
      by (auto simp: pendingClosures_def)
    with assms(2) have ne: "i \<noteq> j" by auto
    have "set (pendingClosures ?s) \<subseteq> set (pendingClosures s)"
      using map_fst_remove1_subset [of t "timers s"] by (simp add: pendingClosures_def)
    with assms(2) have "i \<notin> set (pendingClosures ?s)" by auto
    with ne timerCallback_closures_lists [of j ?s]
    have "i \<notin> set (pendingClosures (timerCallback j ?s))" by auto
    moreover have "i < closures (timerCallback j ?s)"
      using assms(1) by (simp add: timerCallback_closures)
    ultimately show ?thesis using Fire Some by (simp add: fire_def)
  qed
next
  case (Navigate c)
  with assms show ?thesis by (simp add: pendingClosures_def)
qed

lemma run_not_pending:
  "i < closures s \<Longrightarrow> i \<notin> set (pendingClosures s) \<Longrightarrow>
   i < closures (run g es s) \<and> i \<notin> set (pendingClosures (run g es s))"
proof (induction es arbitrary: s)
  case Nil
  then show ?case by simp
next
  case (Cons e es)
  from step_not_pending [OF Cons.prems, of g e]
  show ?case by (simp add: Cons.IH)
qed

lemma fire_cancelled:
  assumes "cancelled (self s)" and "find (\<lambda>t. fst t = i) (timers s) = Some t"
  shows "fire i s =
    (case completionCallback (self s) of
       Some cb \<Rightarrow> s\<lparr>timers := remove1 t (timers s), completions := completions s @ [(i, cb)]\<rparr>
     | None \<Rightarrow> s\<lparr>timers := remove1 t (timers s)\<rparr>)"
  using assms by (simp add: fire_def timerCallback_def invoke_def split: option.splits)

section \<open>Cancellation\<close>

text \<open>
  Claim C6. \<^verbatim>\<open>cancel()\<close> only sets the cancellation flag: calling it twice is calling it
  once, and it invokes no completion callback, touches no timer and leaves the camera.
  A tick of the closure \<open>i\<close> that finds the flag set invokes the completion callback once
  if there is one and none otherwise, hands the navigator no camera, leaves the animator
  as it is and schedules nothing: the pending timers are those of before without the one
  that fired. Where the bookkeeping of timers is sound, the closure is never pending
  again, whatever happens next.
\<close>

theorem cancel_then_tick:
  "cancel s = s\<lparr>self := (self s)\<lparr>cancelled := True\<rparr>\<rparr> \<and>
   cancel (cancel s) = cancel s \<and>
   completions (cancel s) = completions s \<and>
   timers (cancel s) = timers s \<and>
   navigator (cancel s) = navigator s \<and>
   setAsCameraCalls (cancel s) = setAsCameraCalls s \<and>
   (cancelled (self s) \<and> find (\<lambda>t. fst t = i) (timers s) = Some t \<longrightarrow>
      completions (fire i s) =
        completions s @ (case completionCallback (self s) of Some cb \<Rightarrow> [(i, cb)] | None \<Rightarrow> []) \<and>
      navigator (fire i s) = navigator s \<and>
      setAsCameraCalls (fire i s) = setAsCameraCalls s \<and>
      self (fire i s) = self s \<and>
      timers (fire i s) = remove1 t (timers s) \<and>
      (timersOk s \<longrightarrow> i \<notin> set (pendingClosures (run g es (fire i s)))))"
proof -
  have c: "cancel s = s\<lparr>self := (self s)\<lparr>cancelled := True\<rparr>\<rparr> \<and>
      cancel (cancel s) = cancel s \<and> completions (cancel s) = completions s \<and>
      timers (cancel s) = timers s \<and> navigator (cancel s) = navigator s \<and>
      setAsCameraCalls (cancel s) = setAsCameraCalls s"
    by (simp add: cancel_def)
  have f: "completions (fire i s) =
        completions s @ (case completionCallback (self s) of Some cb \<Rightarrow> [(i, cb)] | None \<Rightarrow> []) \<and>
      navigator (fire i s) = navigator s \<and>
      setAsCameraCalls (fire i s) = setAsCameraCalls s \<and>
      self (fire i s) = self s \<and>
      timers (fire i s) = remove1 t (timers s)"
    if "cancelled (self s)" "find (\<lambda>t. fst t = i) (timers s) = Some t"
    using that by (simp add: fire_cancelled split: option.splits)
  have over: "i \<notin> set (pendingClosures (run g es (fire i s)))"
    if cs: "cancelled (self s)" and fd: "find (\<lambda>t. fst t = i) (timers s) = Some t"
      and ok: "timersOk s"
  proof -
    from fd have t: "t \<in> set (timers s)" and ti: "fst t = i"
      using find_SomeD [of "\<lambda>t. fst t = i" "timers s" t] by simp_all
    from ok have d: "distinct (map fst (timers s))"
      by (simp add: timersOk_def pendingClosures_def)
    from t ti have mem: "i \<in> set (pendingClosures s)"
      by (auto simp: pendingClosures_def)
    have "pendingClosures (fire i s) = remove1 i (pendingClosures s)"
      using f [OF cs fd] map_fst_remove1 [OF d t] ti by (simp add: pendingClosures_def)
    with ok have np: "i \<notin> set (pendingClosures (fire i s))"
      by (simp add: timersOk_def)
    have "closures (fire i s) = closures s"
      using cs fd by (simp add: fire_cancelled split: option.splits)
    with ok mem have "i < closures (fire i s)"
      by (auto simp: timersOk_def)
    from run_not_pending [OF this np] show ?thesis by simp
  qed
  from c f over show ?thesis by blast
qed

theorem cancel_then_tick_witness:
  "cancelled (self (cancel (runningState risingAnimator (cameraAt 0 1000) 1100))) \<and>
   find (\<lambda>t. fst t = 0) (timers (cancel (runningState risingAnimator (cameraAt 0 1000) 1100)))
     = Some (0, 20) \<and>
   timersOk (cancel (runningState risingAnimator (cameraAt 0 1000) 1100)) \<and>
   completions (fire 0 (cancel (runningState risingAnimator (cameraAt 0 1000) 1100))) = [(0, 7)] \<and>
   navigator (fire 0 (cancel (runningState risingAnimator (cameraAt 0 1000) 1100)))
     = cameraAt 0 1000 \<and>
   setAsCameraCalls (fire 0 (cancel (runningState risingAnimator (cameraAt 0 1000) 1100))) = [] \<and>
   timers (fire 0 (cancel (runningState risingAnimator (cameraAt 0 1000) 1100))) = [] \<and>
   0 \<notin> set (pendingClosures (run [] [Fire 0, Navigate (cameraAt 1 1000), Fire 0]
          (fire 0 (cancel (runningState risingAnimator (cameraAt 0 1000) 1100)))))"
  using cancel_then_tick [of "cancel (runningState risingAnimator (cameraAt 0 1000) 1100)" 0
          "(0, 20)" "[]" "[Fire 0, Navigate (cameraAt 1 1000), Fire 0]"]
  by (simp add: cancel_def example_defs timersOk_def pendingClosures_def completedClosures_def)

section \<open>The completion callback\<close>











section \<open>Argument checks\<close>

lemma throwArgumentError_bound:
  "throwArgumentError g c f m =
     (if ''ArgumentError'' \<in> set g then ArgumentError c f m else ReferenceError ''ArgumentError'')"
  by (simp add: throwArgumentError_def moduleScope_def)

lemma argument_checks_bound:
  assumes "''ArgumentError'' \<in> set g"
  shows "GoToAnimator g None = Inl (ArgumentError ''GoToAnimator'' ''constructor'' ''missingWorldWindow'')"
    and "goTo g None cb s = (Some (ArgumentError ''GoToAnimator'' ''goTo'' ''missingPosition''), s)"
  using assms by (simp_all add: GoToAnimator_def goTo_None throwArgumentError_bound)

text \<open>
  Claim C9. In a host whose global object binds no \<^verbatim>\<open>ArgumentError\<close>, constructing an
  animator without a world window and calling \<^verbatim>\<open>goTo\<close> without a position both throw a
  \<^verbatim>\<open>ReferenceError\<close>, not the \<^verbatim>\<open>ArgumentError\<close> the documentation of lines 32 and 85
  promises; the error is thrown before anything is written, so \<^verbatim>\<open>goTo\<close> leaves the
  state as it was.
\<close>

theorem argument_checks_throw:
  "GoToAnimator [] None = Inl (ReferenceError ''ArgumentError'') \<and>
   (\<forall>cb s. goTo [] None cb s = (Some (ReferenceError ''ArgumentError''), s))"
  by (simp add: GoToAnimator_def goTo_None throwArgumentError_bound)

end
